theory Spec2Isabelle
  imports Complex_Main "HOL-Library.Char_ord" "HOL-Library.List_Lexorder" "HOL-Library.Sublist"
begin

section \<open>Data model\<close>

text \<open>
  The editor keeps a graph of nodes and edges (\<^verbatim>\<open>NodeData\<close>, \<^verbatim>\<open>EdgeData\<close>) in the
  \<^verbatim>\<open>Playground\<close> component and hands it to the \<^verbatim>\<open>Workspace\<close> component, which owns the
  viewport (\<^verbatim>\<open>scale\<close>, \<^verbatim>\<open>offset\<close>) and the pointer handlers.

  JavaScript numbers are taken as real numbers (exact arithmetic, no NaN or infinities),
  JavaScript strings as lists of characters. Field names carry a prefix where the
  TypeScript name (\<^verbatim>\<open>id\<close>, \<^verbatim>\<open>type\<close>, \<^verbatim>\<open>name\<close>, \<^verbatim>\<open>x\<close>, \<^verbatim>\<open>y\<close>) would clash.
\<close>

record Position =
  pos_x :: real
  pos_y :: real

datatype FieldType = Input | Output | NoField

record NodeField =
  field_id :: string
  field_name :: string
  field_type :: string
  fieldType :: FieldType

record NodeInner =
  label :: string
  inputs :: "NodeField list"
  outputs :: "NodeField list"

record NodeData =
  node_id :: string
  node_type :: string
  position :: Position
  data :: NodeInner

record EdgeData =
  edge_id :: string
  source :: string
  sourceHandle :: string
  target :: string
  targetHandle :: string

section \<open>The pattern catalog (\<^verbatim>\<open>utils/workflowPatterns.ts\<close>)\<close>

record ConnectionPattern =
  nodeConnection :: string
  portConnection :: string

record WorkflowPattern =
  pattern_id :: string
  pattern_name :: string
  requiredNodeTypes :: "string list"
  connections :: "ConnectionPattern list"
  endpoint :: string

text \<open>
  The separator of the catalog's connection strings is the arrow U+2192, a single UTF-16
  code unit in the source. Strings here have 8-bit characters, so the arrow is the single
  character \<open>0x92\<close>: like the original it is one unit long, it sorts after every
  ASCII character, and \<^verbatim>\<open>toLowerCase\<close> leaves it alone.
\<close>

definition arrow :: char where
  "arrow = CHR 0x92"

definition pat_email_marketing :: WorkflowPattern where
  "pat_email_marketing = \<lparr>pattern_id = ''email-marketing'', pattern_name = ''Email Marketing Workflow'',
     requiredNodeTypes = [''File-Input-Tool'', ''CSV-Agent'', ''Text-Input-Tool'', ''Text-Agent'', ''Email-Tool'', ''End''],
     connections = [
       \<lparr>nodeConnection = ''File-Input-Tool'' @ arrow # ''CSV-Agent'', portConnection = ''File'' @ arrow # ''File''\<rparr>,
       \<lparr>nodeConnection = ''CSV-Agent'' @ arrow # ''Text-Agent'', portConnection = ''Personal Description'' @ arrow # ''Tools''\<rparr>,
       \<lparr>nodeConnection = ''CSV-Agent'' @ arrow # ''Email-Tool'', portConnection = ''Receiver Emails'' @ arrow # ''Receiver Emails''\<rparr>,
       \<lparr>nodeConnection = ''Text-Input-Tool'' @ arrow # ''Text-Agent'', portConnection = ''Text'' @ arrow # ''Instructions''\<rparr>,
       \<lparr>nodeConnection = ''Text-Agent'' @ arrow # ''Email-Tool'', portConnection = ''Output'' @ arrow # ''Email Description''\<rparr>,
       \<lparr>nodeConnection = ''Email-Tool'' @ arrow # ''End'', portConnection = ''Status'' @ arrow # ''End''\<rparr>],
     endpoint = ''http://localhost:8000/workflow_agent''\<rparr>"

definition pat_marketing_cold_caller :: WorkflowPattern where
  "pat_marketing_cold_caller = \<lparr>pattern_id = ''marketing-cold-caller'', pattern_name = ''Marketing Cold Caller Workflow'',
     requiredNodeTypes = [''File-Input-Tool'', ''CSV-Agent'', ''Voice-Agent'', ''WhatsApp-Tool'', ''End''],
     connections = [
       \<lparr>nodeConnection = ''File-Input-Tool'' @ arrow # ''CSV-Agent'', portConnection = ''File'' @ arrow # ''File''\<rparr>,
       \<lparr>nodeConnection = ''WhatsApp-Tool'' @ arrow # ''Voice-Agent'', portConnection = ''Output'' @ arrow # ''Tools''\<rparr>,
       \<lparr>nodeConnection = ''CSV-Agent'' @ arrow # ''Voice-Agent'', portConnection = ''Personal Description'' @ arrow # ''Instructions''\<rparr>,
       \<lparr>nodeConnection = ''Voice-Agent'' @ arrow # ''End'', portConnection = ''Output'' @ arrow # ''End''\<rparr>],
     endpoint = ''http://localhost:8000/voice_agent''\<rparr>"

definition pat_csv_agent :: WorkflowPattern where
  "pat_csv_agent = \<lparr>pattern_id = ''csv-agent'', pattern_name = ''CSV Agent Workflow'',
     requiredNodeTypes = [''CSV-Agent'', ''File-Input-Tool'', ''Text-Input-Tool'', ''End''],
     connections = [
       \<lparr>nodeConnection = ''File-Input-Tool'' @ arrow # ''CSV-Agent'', portConnection = ''File'' @ arrow # ''File''\<rparr>,
       \<lparr>nodeConnection = ''Text-Input-Tool'' @ arrow # ''CSV-Agent'', portConnection = ''Text'' @ arrow # ''Query''\<rparr>,
       \<lparr>nodeConnection = ''CSV-Agent'' @ arrow # ''End'', portConnection = ''Output'' @ arrow # ''End''\<rparr>],
     endpoint = ''http://localhost:8000/csv_agent''\<rparr>"

definition pat_web_search :: WorkflowPattern where
  "pat_web_search = \<lparr>pattern_id = ''web-search'', pattern_name = ''Web Search Workflow'',
     requiredNodeTypes = [''Web-Search-Tool'', ''Text-Agent'', ''Text-Input-Tool'', ''End''],
     connections = [
       \<lparr>nodeConnection = ''Text-Input-Tool'' @ arrow # ''Text-Agent'', portConnection = ''Text'' @ arrow # ''Query''\<rparr>,
       \<lparr>nodeConnection = ''Web-Search-Tool'' @ arrow # ''Text-Agent'', portConnection = ''Tool'' @ arrow # ''Tools''\<rparr>,
       \<lparr>nodeConnection = ''Text-Agent'' @ arrow # ''End'', portConnection = ''Output'' @ arrow # ''End''\<rparr>],
     endpoint = ''http://localhost:8000/web_agent''\<rparr>"

definition pat_rag :: WorkflowPattern where
  "pat_rag = \<lparr>pattern_id = ''rag'', pattern_name = ''RAG Workflow'',
     requiredNodeTypes = [''Text-Agent'', ''Text-Input-Tool'', ''Knowledge-Base'', ''End''],
     connections = [
       \<lparr>nodeConnection = ''Text-Input-Tool'' @ arrow # ''Text-Agent'', portConnection = ''Text'' @ arrow # ''Query''\<rparr>,
       \<lparr>nodeConnection = ''Knowledge-Base'' @ arrow # ''Text-Agent'', portConnection = ''Content'' @ arrow # ''Tools''\<rparr>,
       \<lparr>nodeConnection = ''Text-Agent'' @ arrow # ''End'', portConnection = ''Output'' @ arrow # ''End''\<rparr>],
     endpoint = ''http://localhost:8000/rag_agent''\<rparr>"

definition pat_text_agent :: WorkflowPattern where
  "pat_text_agent = \<lparr>pattern_id = ''text-agent'', pattern_name = ''Text Agent Workflow'',
     requiredNodeTypes = [''Text-Agent'', ''Text-Input-Tool'', ''End''],
     connections = [
       \<lparr>nodeConnection = ''Text-Input-Tool'' @ arrow # ''Text-Agent'', portConnection = ''Text'' @ arrow # ''Query''\<rparr>,
       \<lparr>nodeConnection = ''Text-Agent'' @ arrow # ''End'', portConnection = ''Output'' @ arrow # ''End''\<rparr>],
     endpoint = ''http://localhost:8000/text_agent''\<rparr>"

definition pat_zoom_tool :: WorkflowPattern where
  "pat_zoom_tool = \<lparr>pattern_id = ''zoom-tool'', pattern_name = ''Zoom Agent'',
     requiredNodeTypes = [''Zoom-Tool'', ''End''],
     connections = [
       \<lparr>nodeConnection = ''Zoom-Tool'' @ arrow # ''End'', portConnection = ''Output'' @ arrow # ''End''\<rparr>],
     endpoint = ''http://localhost:8000/zoom_agent''\<rparr>"

definition pat_arxiv_search :: WorkflowPattern where
  "pat_arxiv_search = \<lparr>pattern_id = ''arxiv-search'', pattern_name = ''ArXiv Search'',
     requiredNodeTypes = [''ArXiv-Search'', ''End''],
     connections = [
       \<lparr>nodeConnection = ''ArXiv-Search'' @ arrow # ''End'', portConnection = ''Papers'' @ arrow # ''End''\<rparr>],
     endpoint = ''http://localhost:8000/component/arxiv''\<rparr>"

definition pat_hackernews_search :: WorkflowPattern where
  "pat_hackernews_search = \<lparr>pattern_id = ''hackernews-search'', pattern_name = ''HackerNews Search'',
     requiredNodeTypes = [''HackerNews-Search'', ''End''],
     connections = [
       \<lparr>nodeConnection = ''HackerNews-Search'' @ arrow # ''End'', portConnection = ''Stories'' @ arrow # ''End''\<rparr>],
     endpoint = ''http://localhost:8000/component/hackernews''\<rparr>"

definition pat_pandas_data :: WorkflowPattern where
  "pat_pandas_data = \<lparr>pattern_id = ''pandas-data'', pattern_name = ''Pandas Data Analysis'',
     requiredNodeTypes = [''Pandas-Data'', ''End''],
     connections = [
       \<lparr>nodeConnection = ''Pandas-Data'' @ arrow # ''End'', portConnection = ''Analysis'' @ arrow # ''End''\<rparr>],
     endpoint = ''http://localhost:8000/component/pandas''\<rparr>"

definition pat_duckdb_sql :: WorkflowPattern where
  "pat_duckdb_sql = \<lparr>pattern_id = ''duckdb-sql'', pattern_name = ''DuckDB SQL Analysis'',
     requiredNodeTypes = [''DuckDB-SQL'', ''End''],
     connections = [
       \<lparr>nodeConnection = ''DuckDB-SQL'' @ arrow # ''End'', portConnection = ''SQL Results'' @ arrow # ''End''\<rparr>],
     endpoint = ''http://localhost:8000/component/duckdb''\<rparr>"

definition pat_calculator :: WorkflowPattern where
  "pat_calculator = \<lparr>pattern_id = ''calculator'', pattern_name = ''Calculator'',
     requiredNodeTypes = [''Calculator'', ''End''],
     connections = [
       \<lparr>nodeConnection = ''Calculator'' @ arrow # ''End'', portConnection = ''Result'' @ arrow # ''End''\<rparr>],
     endpoint = ''http://localhost:8000/component/calculator''\<rparr>"

definition pat_text_processor :: WorkflowPattern where
  "pat_text_processor = \<lparr>pattern_id = ''text-processor'', pattern_name = ''Text Processor'',
     requiredNodeTypes = [''Text-Processor'', ''End''],
     connections = [
       \<lparr>nodeConnection = ''Text-Processor'' @ arrow # ''End'', portConnection = ''Processed Text'' @ arrow # ''End''\<rparr>],
     endpoint = ''http://localhost:8000/component/textprocessor''\<rparr>"

definition pat_json_processor :: WorkflowPattern where
  "pat_json_processor = \<lparr>pattern_id = ''json-processor'', pattern_name = ''JSON Processor'',
     requiredNodeTypes = [''JSON-Processor'', ''End''],
     connections = [
       \<lparr>nodeConnection = ''JSON-Processor'' @ arrow # ''End'', portConnection = ''Processed JSON'' @ arrow # ''End''\<rparr>],
     endpoint = ''http://localhost:8000/component/json''\<rparr>"

definition pat_python_code :: WorkflowPattern where
  "pat_python_code = \<lparr>pattern_id = ''python-code'', pattern_name = ''Python Code Execution'',
     requiredNodeTypes = [''Python-Code'', ''End''],
     connections = [
       \<lparr>nodeConnection = ''Python-Code'' @ arrow # ''End'', portConnection = ''Execution Result'' @ arrow # ''End''\<rparr>],
     endpoint = ''http://localhost:8000/component/python''\<rparr>"

definition pat_file_operations :: WorkflowPattern where
  "pat_file_operations = \<lparr>pattern_id = ''file-operations'', pattern_name = ''File Operations'',
     requiredNodeTypes = [''File-Operations'', ''End''],
     connections = [
       \<lparr>nodeConnection = ''File-Operations'' @ arrow # ''End'', portConnection = ''Result'' @ arrow # ''End''\<rparr>],
     endpoint = ''http://localhost:8000/component/file''\<rparr>"

definition pat_web_scraping :: WorkflowPattern where
  "pat_web_scraping = \<lparr>pattern_id = ''web-scraping'', pattern_name = ''Web Scraping'',
     requiredNodeTypes = [''Web-Scraping'', ''End''],
     connections = [
       \<lparr>nodeConnection = ''Web-Scraping'' @ arrow # ''End'', portConnection = ''Content'' @ arrow # ''End''\<rparr>],
     endpoint = ''http://localhost:8000/component/webscraping''\<rparr>"

definition pat_wikipedia :: WorkflowPattern where
  "pat_wikipedia = \<lparr>pattern_id = ''wikipedia'', pattern_name = ''Wikipedia Research'',
     requiredNodeTypes = [''Wikipedia'', ''End''],
     connections = [
       \<lparr>nodeConnection = ''Wikipedia'' @ arrow # ''End'', portConnection = ''Information'' @ arrow # ''End''\<rparr>],
     endpoint = ''http://localhost:8000/component/wikipedia''\<rparr>"

definition pat_youtube :: WorkflowPattern where
  "pat_youtube = \<lparr>pattern_id = ''youtube'', pattern_name = ''YouTube Analysis'',
     requiredNodeTypes = [''YouTube'', ''End''],
     connections = [
       \<lparr>nodeConnection = ''YouTube'' @ arrow # ''End'', portConnection = ''Analysis'' @ arrow # ''End''\<rparr>],
     endpoint = ''http://localhost:8000/component/youtube''\<rparr>"

definition pat_financial_analysis :: WorkflowPattern where
  "pat_financial_analysis = \<lparr>pattern_id = ''financial-analysis'', pattern_name = ''Financial Analysis'',
     requiredNodeTypes = [''Financial-Analysis'', ''End''],
     connections = [
       \<lparr>nodeConnection = ''Financial-Analysis'' @ arrow # ''End'', portConnection = ''Analysis'' @ arrow # ''End''\<rparr>],
     endpoint = ''http://localhost:8000/component/financial''\<rparr>"

definition pat_local_filesystem :: WorkflowPattern where
  "pat_local_filesystem = \<lparr>pattern_id = ''local-filesystem'', pattern_name = ''Local File System'',
     requiredNodeTypes = [''Local-FileSystem'', ''End''],
     connections = [
       \<lparr>nodeConnection = ''Local-FileSystem'' @ arrow # ''End'', portConnection = ''Result'' @ arrow # ''End''\<rparr>],
     endpoint = ''http://localhost:8000/component/localfs''\<rparr>"

definition workflowPatterns :: "WorkflowPattern list" where
  "workflowPatterns =
    [pat_email_marketing, pat_marketing_cold_caller, pat_csv_agent, pat_web_search, pat_rag,
      pat_text_agent, pat_zoom_tool, pat_arxiv_search, pat_hackernews_search,
      pat_pandas_data, pat_duckdb_sql, pat_calculator, pat_text_processor,
      pat_json_processor, pat_python_code, pat_file_operations, pat_web_scraping,
      pat_wikipedia, pat_youtube, pat_financial_analysis, pat_local_filesystem]"

section \<open>String helpers of the matcher\<close>

text \<open>\<^verbatim>\<open>String.prototype.toLowerCase\<close>, on the ASCII letters.\<close>

definition toLowerChar :: "char \<Rightarrow> char" where
  "toLowerChar c =
     (case map_of (zip ''ABCDEFGHIJKLMNOPQRSTUVWXYZ'' ''abcdefghijklmnopqrstuvwxyz'') c of
        Some l \<Rightarrow> l
      | None \<Rightarrow> c)"

definition toLowerCase :: "string \<Rightarrow> string" where
  "toLowerCase s = map toLowerChar s"

text \<open>\<^verbatim>\<open>hay.includes(needle)\<close>: the needle occurs in the hay as a contiguous run.\<close>

fun includesStr :: "string \<Rightarrow> string \<Rightarrow> bool" where
  "includesStr [] needle = (needle = [])"
| "includesStr (c # cs) needle = (prefix needle (c # cs) \<or> includesStr cs needle)"

text \<open>\<^verbatim>\<open>s.split(sep)\<close> for a separator of one character: never an empty array.\<close>

fun splitStr :: "char \<Rightarrow> string \<Rightarrow> string list" where
  "splitStr sep [] = ['''']"
| "splitStr sep (c # cs) =
     (if c = sep then [] # splitStr sep cs
      else (case splitStr sep cs of
              [] \<Rightarrow> [c] # []
            | p # ps \<Rightarrow> (c # p) # ps))"

text \<open>\<^verbatim>\<open>[...new Set(xs)]\<close>: the distinct elements, in order of first occurrence.\<close>

definition newSet :: "string list \<Rightarrow> string list" where
  "newSet xs = foldl (\<lambda>acc v. if v \<in> set acc then acc else acc @ [v]) [] xs"

section \<open>The pattern matcher (\<^verbatim>\<open>checkWorkflowPattern\<close>, \<^verbatim>\<open>detectWorkflowPattern\<close>)\<close>

datatype error = TypeError

text \<open>
  The callback of \<^verbatim>\<open>connections[nodeConnection].some(...)\<close>. Destructuring
  \<^verbatim>\<open>[a, b] = s.split(arrow)\<close> leaves \<^verbatim>\<open>b\<close> undefined when \<^verbatim>\<open>s\<close> has no arrow, and
  \<^verbatim>\<open>toLowerCase\<close> of undefined throws; \<^verbatim>\<open>&&\<close> evaluates its right operand only when
  the left one is true.
\<close>

definition portsMatch :: "string \<Rightarrow> string \<Rightarrow> error + bool" where
  "portsMatch conn portConn =
     (case (splitStr arrow conn, splitStr arrow portConn) of
        (sourcePort # rest, expectedSourcePort # expectedRest) \<Rightarrow>
          if includesStr (toLowerCase sourcePort) (toLowerCase expectedSourcePort)
          then (case (rest, expectedRest) of
                  (targetPort # _, expectedTargetPort # _) \<Rightarrow>
                    Inr (includesStr (toLowerCase targetPort) (toLowerCase expectedTargetPort))
                | _ \<Rightarrow> Inl TypeError)
          else Inr False
      | _ \<Rightarrow> Inl TypeError)"

fun someMatch :: "string \<Rightarrow> string list \<Rightarrow> error + bool" where
  "someMatch portConn [] = Inr False"
| "someMatch portConn (conn # conns) =
     (case portsMatch conn portConn of
        Inl e \<Rightarrow> Inl e
      | Inr True \<Rightarrow> Inr True
      | Inr False \<Rightarrow> someMatch portConn conns)"

text \<open>
  What one edge contributes to the \<^verbatim>\<open>connections\<close> table: nothing when an endpoint node
  is missing, otherwise the key \<^verbatim>\<open>sourceType\<rightarrow>targetType\<close> and, when both handles resolve
  to ports, the entry \<^verbatim>\<open>outputName\<rightarrow>inputName\<close>.
\<close>

definition edgeEntry :: "NodeData list \<Rightarrow> EdgeData \<Rightarrow> (string \<times> string option) option" where
  "edgeEntry nodes edge =
     (case (find (\<lambda>n. node_id n = source edge) nodes,
            find (\<lambda>n. node_id n = target edge) nodes) of
        (Some sourceNode, Some targetNode) \<Rightarrow>
          Some (node_type sourceNode @ arrow # node_type targetNode,
            (case (find (\<lambda>out. field_id out = sourceHandle edge) (outputs (data sourceNode)),
                   find (\<lambda>i. field_id i = targetHandle edge) (inputs (data targetNode))) of
               (Some sourceOutput, Some targetInput) \<Rightarrow>
                 Some (field_name sourceOutput @ arrow # field_name targetInput)
             | _ \<Rightarrow> None))
      | _ \<Rightarrow> None)"

definition addConnection ::
  "NodeData list \<Rightarrow> (string \<rightharpoonup> string list) \<Rightarrow> EdgeData \<Rightarrow> (string \<rightharpoonup> string list)" where
  "addConnection nodes conns edge =
     (case edgeEntry nodes edge of
        None \<Rightarrow> conns
      | Some (connection, entry) \<Rightarrow>
          (let existing = (case conns connection of None \<Rightarrow> [] | Some l \<Rightarrow> l)
           in conns(connection \<mapsto> (case entry of None \<Rightarrow> existing | Some s \<Rightarrow> existing @ [s]))))"

definition buildConnections :: "NodeData list \<Rightarrow> EdgeData list \<Rightarrow> (string \<rightharpoonup> string list)" where
  "buildConnections nodes edges = foldl (addConnection nodes) Map.empty edges"

text \<open>The \<^verbatim>\<open>nodeTypeMap\<close> table: the nodes of each type, in order.\<close>

definition nodeTypeMap :: "NodeData list \<Rightarrow> (string \<rightharpoonup> NodeData list)" where
  "nodeTypeMap nodes =
     foldl (\<lambda>m node. m(node_type node \<mapsto>
               (case m (node_type node) of None \<Rightarrow> [] | Some l \<Rightarrow> l) @ [node]))
       Map.empty nodes"

text \<open>The loop over \<^verbatim>\<open>pattern.connections\<close>.\<close>

fun checkConnections :: "(string \<rightharpoonup> string list) \<Rightarrow> ConnectionPattern list \<Rightarrow> error + bool" where
  "checkConnections conns [] = Inr True"
| "checkConnections conns (c # cs) =
     (case conns (nodeConnection c) of
        None \<Rightarrow> Inr False
      | Some l \<Rightarrow>
          (case someMatch (portConnection c) l of
             Inl e \<Rightarrow> Inl e
           | Inr False \<Rightarrow> Inr False
           | Inr True \<Rightarrow> checkConnections conns cs))"

definition checkWorkflowPattern :: "NodeData list \<Rightarrow> EdgeData list \<Rightarrow> string \<Rightarrow> error + bool" where
  "checkWorkflowPattern nodes edges patternId =
     (case find (\<lambda>p. pattern_id p = patternId) workflowPatterns of
        None \<Rightarrow> Inr False
      | Some pattern \<Rightarrow>
          (let patternNodeTypes = sort (requiredNodeTypes pattern);
               workflowNodeTypes = sort (newSet (map node_type nodes))
           in if length patternNodeTypes \<noteq> length workflowNodeTypes \<or>
                 \<not> list_all (\<lambda>(t, w). t = w) (zip patternNodeTypes workflowNodeTypes)
              then Inr False
              else if \<not> list_all (\<lambda>t. case nodeTypeMap nodes t of
                                          None \<Rightarrow> False
                                        | Some l \<Rightarrow> length l \<noteq> 0)
                        (requiredNodeTypes pattern)
              then Inr False
              else checkConnections (buildConnections nodes edges) (connections pattern)))"

fun detectLoop :: "NodeData list \<Rightarrow> EdgeData list \<Rightarrow> WorkflowPattern list \<Rightarrow> error + (string \<times> string) option" where
  "detectLoop nodes edges [] = Inr None"
| "detectLoop nodes edges (pattern # rest) =
     (case checkWorkflowPattern nodes edges (pattern_id pattern) of
        Inl e \<Rightarrow> Inl e
      | Inr True \<Rightarrow> Inr (Some (pattern_id pattern, endpoint pattern))
      | Inr False \<Rightarrow> detectLoop nodes edges rest)"

definition detectWorkflowPattern :: "NodeData list \<Rightarrow> EdgeData list \<Rightarrow> error + (string \<times> string) option" where
  "detectWorkflowPattern nodes edges = detectLoop nodes edges workflowPatterns"


text \<open>
  Which request \<^verbatim>\<open>handlePlayClick\<close> sends: nothing for an empty canvas, a failure when no
  \<^verbatim>\<open>End\<close> node exists or the detection throws, the route of the detected pattern, or, when
  no pattern is detected, the dynamic workflow route with the nodes and the edges whose ends
  are both current nodes. The payloads of the pattern routes and the handling of the
  response are left out.
\<close>

datatype Route =
  NothingToExecute
| ExecutionFailed
| PatternRoute string string
| DynamicRoute string "NodeData list" "EdgeData list"

definition handlePlayClick :: "NodeData list \<Rightarrow> EdgeData list \<Rightarrow> Route" where
  "handlePlayClick nodes edges =
     (if length nodes = 0 then NothingToExecute
      else if \<not> list_ex (\<lambda>node. node_type node = ''End'') nodes then ExecutionFailed
      else (case detectWorkflowPattern nodes edges of
              Inl e \<Rightarrow> ExecutionFailed
            | Inr (Some (patternId, url)) \<Rightarrow> PatternRoute patternId url
            | Inr None \<Rightarrow>
                (let nodeIds = set (map node_id nodes);
                     validEdges =
                       filter (\<lambda>edge. source edge \<in> nodeIds \<and> target edge \<in> nodeIds) edges
                 in DynamicRoute ''http://localhost:8000/execute_dynamic_workflow'' nodes validEdges)))"

text \<open>
  The port-name relation as the specification words it, for comparison with \<open>portsMatch\<close>:
  one name contains the other, ignoring case.
\<close>

definition portNamesCompatible :: "string \<Rightarrow> string \<Rightarrow> bool" where
  "portNamesCompatible actual expected \<longleftrightarrow>
     includesStr (toLowerCase actual) (toLowerCase expected) \<or>
     includesStr (toLowerCase expected) (toLowerCase actual)"


section \<open>The graph state of \<^verbatim>\<open>Playground\<close>\<close>

text \<open>
  \<^verbatim>\<open>nodes\<close> and \<^verbatim>\<open>edges\<close> are React state. A handler or an effect reads the values of the
  render it was created in (its snapshot) and queues updates; the updates of one event are
  applied together, in order, before the next render. \<^verbatim>\<open>setEdges(v)\<close> replaces the
  pending value by \<^verbatim>\<open>v\<close>; \<^verbatim>\<open>setNodes(f)\<close> applies \<^verbatim>\<open>f\<close> to the pending value. Each
  function below takes the snapshot and returns the state of the next render.
\<close>

record PlaygroundState =
  st_nodes :: "NodeData list"
  st_edges :: "EdgeData list"

text \<open>
  \<^verbatim>\<open>handleAddEdge\<close>: the candidate is appended under a fresh id unless an edge with the same
  source, target and handles exists. \<open>now\<close> is the rendering of \<^verbatim>\<open>Date.now()\<close>.
\<close>

definition same4 :: "EdgeData \<Rightarrow> EdgeData \<Rightarrow> bool" where
  "same4 e edge \<longleftrightarrow>
     source e = source edge \<and> target e = target edge \<and>
     sourceHandle e = sourceHandle edge \<and> targetHandle e = targetHandle edge"

definition handleAddEdge :: "PlaygroundState \<Rightarrow> string \<Rightarrow> EdgeData \<Rightarrow> PlaygroundState" where
  "handleAddEdge st now edge =
     (let edgeExists = list_ex (\<lambda>e. same4 e edge) (st_edges st)
      in if \<not> edgeExists
         then st\<lparr>st_edges := st_edges st @ [edge\<lparr>edge_id := ''edge-'' @ now\<rparr>]\<rparr>
         else st)"

text \<open>
  \<^verbatim>\<open>handleRemoveEdge\<close> calls \<^verbatim>\<open>setEdges(edges.filter(...))\<close>: the new value is computed
  from the snapshot \<^verbatim>\<open>edges\<close> of the render.
\<close>

definition handleRemoveEdge :: "PlaygroundState \<Rightarrow> string \<Rightarrow> PlaygroundState" where
  "handleRemoveEdge st edgeId =
     st\<lparr>st_edges := filter (\<lambda>edge. edge_id edge \<noteq> edgeId) (st_edges st)\<rparr>"

text \<open>
  The delete button of a node (\<^verbatim>\<open>onClick\<close> in \<^verbatim>\<open>Workspace\<close>): \<^verbatim>\<open>onRemoveEdge\<close> is called
  once for every connected edge of the snapshot, then the node is filtered out of the
  pending node list. Every call of \<^verbatim>\<open>onRemoveEdge\<close> is the \<^verbatim>\<open>handleRemoveEdge\<close> of the
  same render: it filters the snapshot \<open>st\<close>, and its \<^verbatim>\<open>setEdges\<close> replaces the pending
  edge list by the result.
\<close>

definition removeNodeClick :: "PlaygroundState \<Rightarrow> string \<Rightarrow> PlaygroundState" where
  "removeNodeClick st nodeId =
     (let connectedEdges =
            filter (\<lambda>edge. source edge = nodeId \<or> target edge = nodeId) (st_edges st);
          pending =
            foldl (\<lambda>p edge. p\<lparr>st_edges := st_edges (handleRemoveEdge st (edge_id edge))\<rparr>)
              st connectedEdges
      in pending\<lparr>st_nodes := filter (\<lambda>n. node_id n \<noteq> nodeId) (st_nodes pending)\<rparr>)"

text \<open>
  The effect "clean up invalid edges when nodes change", run after a render whose node ids
  differ from those of the render before.
\<close>

definition cleanupEdges :: "PlaygroundState \<Rightarrow> PlaygroundState" where
  "cleanupEdges st =
     (let nodeIds = set (map node_id (st_nodes st));
          invalidEdges =
            filter (\<lambda>edge. source edge \<notin> nodeIds \<or> target edge \<notin> nodeIds) (st_edges st)
      in if length invalidEdges > 0
         then st\<lparr>st_edges :=
                  filter (\<lambda>edge. source edge \<in> nodeIds \<and> target edge \<in> nodeIds) (st_edges st)\<rparr>
         else st)"

text \<open>The invariant of the edge set: both ends of every edge are ids of current nodes.\<close>

definition edgesValid :: "PlaygroundState \<Rightarrow> bool" where
  "edgesValid st \<longleftrightarrow>
     list_all (\<lambda>edge. source edge \<in> set (map node_id (st_nodes st)) \<and>
                       target edge \<in> set (map node_id (st_nodes st))) (st_edges st)"

section \<open>The viewport of \<^verbatim>\<open>Workspace\<close>\<close>

record Viewport =
  vp_scale :: real
  vp_offset :: Position

text \<open>The part of \<^verbatim>\<open>getBoundingClientRect()\<close> that the handlers read.\<close>

record DOMRect =
  rect_left :: real
  rect_top :: real

definition MIN_ZOOM :: real where
  "MIN_ZOOM = 0.5"

definition MAX_ZOOM :: real where
  "MAX_ZOOM = 2"

text \<open>
  Pointer position to canvas position: the expression
  \<^verbatim>\<open>(clientX - workspaceRect.left) / scale - offset.x\<close> of \<^verbatim>\<open>handleDrop\<close>,
  \<^verbatim>\<open>handleFieldMouseDown\<close> and the snap search.
\<close>

definition toCanvas :: "Viewport \<Rightarrow> DOMRect \<Rightarrow> Position \<Rightarrow> Position" where
  "toCanvas vp workspaceRect client =
     \<lparr>pos_x = (pos_x client - rect_left workspaceRect) / vp_scale vp - pos_x (vp_offset vp),
      pos_y = (pos_y client - rect_top workspaceRect) / vp_scale vp - pos_y (vp_offset vp)\<rparr>"

text \<open>
  Canvas position to pointer position: the transform container sits at the top left corner
  of the workspace and carries the style
  \<^verbatim>\<open>transform: scale(s) translate(ox px, oy px)\<close> with origin top left, which moves a
  point by the offset first and scales it second.
\<close>

definition toScreen :: "Viewport \<Rightarrow> DOMRect \<Rightarrow> Position \<Rightarrow> Position" where
  "toScreen vp workspaceRect canvas =
     \<lparr>pos_x = rect_left workspaceRect + vp_scale vp * (pos_x canvas + pos_x (vp_offset vp)),
      pos_y = rect_top workspaceRect + vp_scale vp * (pos_y canvas + pos_y (vp_offset vp))\<rparr>"

text \<open>
  \<^verbatim>\<open>handleZoom(delta)\<close> (the + and - buttons) and the wheel listener. Both return without
  an update when the workspace element is not mounted (\<open>None\<close>).
\<close>

definition handleZoom :: "Viewport \<Rightarrow> DOMRect option \<Rightarrow> real \<Rightarrow> Viewport" where
  "handleZoom vp workspaceRect delta =
     (let newScale = min (max (vp_scale vp + delta) MIN_ZOOM) MAX_ZOOM
      in case workspaceRect of
           None \<Rightarrow> vp
         | Some _ \<Rightarrow>
             (let newOffsetX = (- 1 * (newScale - vp_scale vp)) / newScale + pos_x (vp_offset vp);
                  newOffsetY = (- 1 * (newScale - vp_scale vp)) / newScale + pos_y (vp_offset vp)
              in \<lparr>vp_scale = newScale, vp_offset = \<lparr>pos_x = newOffsetX, pos_y = newOffsetY\<rparr>\<rparr>))"

definition handleWheelEvent :: "Viewport \<Rightarrow> DOMRect option \<Rightarrow> real \<Rightarrow> Viewport" where
  "handleWheelEvent vp workspaceRect deltaY =
     (let delta = (if deltaY > 0 then - 0.1 else 0.1);
          newScale = min (max (vp_scale vp + delta) MIN_ZOOM) MAX_ZOOM
      in case workspaceRect of
           None \<Rightarrow> vp
         | Some _ \<Rightarrow>
             (let newOffsetX = (- 1 * (newScale - vp_scale vp)) / newScale + pos_x (vp_offset vp);
                  newOffsetY = (- 1 * (newScale - vp_scale vp)) / newScale + pos_y (vp_offset vp)
              in \<lparr>vp_scale = newScale, vp_offset = \<lparr>pos_x = newOffsetX, pos_y = newOffsetY\<rparr>\<rparr>))"

section \<open>Dragging a connection (\<^verbatim>\<open>handleFieldMouseDown\<close>)\<close>

record ConnectionState =
  cs_nodeId :: string
  cs_fieldId :: string
  cs_type :: FieldType

text \<open>
  The state of \<^verbatim>\<open>Workspace\<close> that a connection drag touches, and the listeners that a
  pointer-down installs on the document: \<open>ws_drag\<close> holds the variables the two
  listeners close over (the origin port and \<^verbatim>\<open>currentSnapCandidate\<close>), \<open>None\<close> when no
  listener is installed. One pair of listeners is modelled, which is what a pointer-down
  in an idle workspace installs; the viewport and the anchor table that the listeners
  close over are passed to them as arguments.
\<close>

record DragClosure =
  drag_nodeId :: string
  drag_fieldId :: string
  drag_fieldType :: FieldType
  currentSnapCandidate :: "string option"

record WorkspaceState =
  connectionStart :: "ConnectionState option"
  mousePosition :: Position
  snapFieldId :: "string option"
  ws_drag :: "DragClosure option"

definition handleFieldMouseDown ::
  "WorkspaceState \<Rightarrow> Viewport \<Rightarrow> DOMRect option \<Rightarrow> Position \<Rightarrow> string \<Rightarrow> NodeField \<Rightarrow> WorkspaceState" where
  "handleFieldMouseDown ws vp workspaceRect client nodeId field =
     (if (fieldType field = Input \<and>
          (case connectionStart ws of None \<Rightarrow> False | Some cs \<Rightarrow> cs_type cs = Output)) \<or>
         fieldType field = Output
      then ws\<lparr>mousePosition :=
                 (case workspaceRect of
                    None \<Rightarrow> mousePosition ws
                  | Some r \<Rightarrow> toCanvas vp r client),
               connectionStart :=
                 Some \<lparr>cs_nodeId = nodeId, cs_fieldId = field_id field, cs_type = fieldType field\<rparr>,
               ws_drag :=
                 Some \<lparr>drag_nodeId = nodeId, drag_fieldId = field_id field,
                       drag_fieldType = fieldType field, currentSnapCandidate = None\<rparr>\<rparr>
      else ws)"

text \<open>
  The snap search of the move listener: the nearest anchor among those within
  \<open>snapDistance\<close>, the first one on a tie. \<open>fieldPositions\<close> lists the entries of the
  anchor table in the order of \<^verbatim>\<open>Object.entries\<close>; \<^verbatim>\<open>Infinity\<close> is \<open>None\<close>.
\<close>

definition snapStep ::
  "real \<Rightarrow> real \<Rightarrow> real \<Rightarrow> string option \<times> real option \<Rightarrow> string \<times> Position \<Rightarrow> string option \<times> real option" where
  "snapStep snapDistance mx my acc entry =
     (let dx = pos_x (snd entry) - mx;
          dy = pos_y (snd entry) - my;
          distance = sqrt (dx * dx + dy * dy)
      in if (case snd acc of None \<Rightarrow> True | Some minDistance \<Rightarrow> distance < minDistance) \<and>
            distance \<le> snapDistance
         then (Some (fst entry), Some distance)
         else acc)"

definition snapSearch :: "(string \<times> Position) list \<Rightarrow> real \<Rightarrow> real \<Rightarrow> real \<Rightarrow> string option" where
  "snapSearch fieldPositions snapDistance mx my =
     fst (foldl (snapStep snapDistance mx my) (None, None) fieldPositions)"

definition dragMouseMove ::
  "Viewport \<Rightarrow> (string \<times> Position) list \<Rightarrow> WorkspaceState \<Rightarrow> DOMRect option \<Rightarrow> Position \<Rightarrow> WorkspaceState" where
  "dragMouseMove vp fieldPositions ws workspaceRect client =
     (case (ws_drag ws, workspaceRect) of
        (Some d, Some r) \<Rightarrow>
          (let m = toCanvas vp r client;
               snapDistance = 40 / vp_scale vp;
               candidate = snapSearch fieldPositions snapDistance (pos_x m) (pos_y m)
           in ws\<lparr>mousePosition := m,
                 snapFieldId := candidate,
                 ws_drag := Some (d\<lparr>currentSnapCandidate := candidate\<rparr>)\<rparr>)
      | _ \<Rightarrow> ws)"

text \<open>
  The elements that carry \<^verbatim>\<open>data-field-id\<close>, in document order: for every node its input
  dots, then its output dots. \<^verbatim>\<open>document.querySelector\<close> returns the first match.
\<close>

record FieldElement =
  el_fieldId :: string
  el_nodeId :: string
  el_fieldType :: FieldType

definition fieldElements :: "NodeData list \<Rightarrow> FieldElement list" where
  "fieldElements nodes =
     concat (map (\<lambda>node.
       map (\<lambda>i. \<lparr>el_fieldId = field_id i, el_nodeId = node_id node, el_fieldType = Input\<rparr>)
         (inputs (data node)) @
       map (\<lambda>out. \<lparr>el_fieldId = field_id out, el_nodeId = node_id node, el_fieldType = Output\<rparr>)
         (outputs (data node))) nodes)"

text \<open>
  The release listener: the edge it passes to \<^verbatim>\<open>onAddEdge\<close>, if any. A JavaScript string
  is truthy when it is not empty.
\<close>

definition proposedEdge :: "FieldElement list \<Rightarrow> DragClosure \<Rightarrow> EdgeData option" where
  "proposedEdge elems d =
     (case currentSnapCandidate d of
        None \<Rightarrow> None
      | Some targetFieldIdCandidate \<Rightarrow>
          if targetFieldIdCandidate = [] then None
          else (case find (\<lambda>el. el_fieldId el = targetFieldIdCandidate) elems of
                  None \<Rightarrow> None
                | Some fieldElement \<Rightarrow>
                    (let targetFieldId = el_fieldId fieldElement;
                         targetNodeId = el_nodeId fieldElement;
                         targetFieldType = el_fieldType fieldElement
                     in if targetFieldId \<noteq> [] \<and> targetNodeId \<noteq> []
                        then (let isValidConnection =
                                    (drag_fieldType d = Output \<and> targetFieldType = Input) \<or>
                                    (drag_fieldType d = Input \<and> targetFieldType = Output)
                              in if isValidConnection \<and> targetNodeId \<noteq> drag_nodeId d
                                 then Some \<lparr>edge_id = ''temp-id'',
                                        source = (if drag_fieldType d = Output
                                                  then drag_nodeId d else targetNodeId),
                                        sourceHandle = (if drag_fieldType d = Output
                                                        then drag_fieldId d else targetFieldId),
                                        target = (if drag_fieldType d = Output
                                                  then targetNodeId else drag_nodeId d),
                                        targetHandle = (if drag_fieldType d = Output
                                                        then targetFieldId else drag_fieldId d)\<rparr>
                                 else None)
                        else None)))"

definition dragMouseUp ::
  "FieldElement list \<Rightarrow> string \<Rightarrow> WorkspaceState \<times> PlaygroundState \<Rightarrow> WorkspaceState \<times> PlaygroundState" where
  "dragMouseUp elems now s =
     (case ws_drag (fst s) of
        None \<Rightarrow> s
      | Some d \<Rightarrow>
          ((fst s)\<lparr>snapFieldId := None, connectionStart := None, ws_drag := None\<rparr>,
           (case proposedEdge elems d of
              None \<Rightarrow> snd s
            | Some edge \<Rightarrow> handleAddEdge (snd s) now edge)))"


section \<open>An example graph\<close>

text \<open>
  The text-agent workflow: a \<^verbatim>\<open>Text-Input-Tool\<close> node wired to the \<^verbatim>\<open>Query\<close> input of a
  \<^verbatim>\<open>Text-Agent\<close> node, whose output is wired to an \<^verbatim>\<open>End\<close> node; and a \<^verbatim>\<open>Calculator\<close> node
  for the variant with one unconnected extra node, and a \<^verbatim>\<open>Web-Search-Tool\<close> node with an
  edge into the \<^verbatim>\<open>Tools\<close> input for the variant with a connected one. The ports follow \<^verbatim>\<open>nodeTemplates\<close>.
\<close>

definition ex_textInput :: NodeData where
  "ex_textInput =
     \<lparr>node_id = ''node-1'', node_type = ''Text-Input-Tool'',
      position = \<lparr>pos_x = 100, pos_y = 100\<rparr>,
      data = \<lparr>label = ''Text-Input-Tool'',
        inputs = [\<lparr>field_id = ''input-1-1'', field_name = ''Text'', field_type = ''string'', fieldType = Input\<rparr>],
        outputs = [\<lparr>field_id = ''output-1-1'', field_name = ''Text'', field_type = ''string'', fieldType = Output\<rparr>]\<rparr>\<rparr>"

definition ex_textAgent :: NodeData where
  "ex_textAgent =
     \<lparr>node_id = ''node-2'', node_type = ''Text-Agent'',
      position = \<lparr>pos_x = 500, pos_y = 100\<rparr>,
      data = \<lparr>label = ''Text-Agent'',
        inputs = [\<lparr>field_id = ''input-1-2'', field_name = ''Tools'', field_type = ''tool'', fieldType = NoField\<rparr>,
                  \<lparr>field_id = ''input-2-2'', field_name = ''Instructions'', field_type = ''string'', fieldType = Input\<rparr>,
                  \<lparr>field_id = ''input-3-2'', field_name = ''Query'', field_type = ''none'', fieldType = Input\<rparr>,
                  \<lparr>field_id = ''input-4-2'', field_name = ''LLM'', field_type = ''string'', fieldType = Input\<rparr>,
                  \<lparr>field_id = ''input-5-2'', field_name = ''API Key'', field_type = ''string'', fieldType = Input\<rparr>],
        outputs = [\<lparr>field_id = ''output-1-2'', field_name = ''Output'', field_type = ''string'', fieldType = Output\<rparr>]\<rparr>\<rparr>"

definition ex_end :: NodeData where
  "ex_end =
     \<lparr>node_id = ''node-3'', node_type = ''End'',
      position = \<lparr>pos_x = 900, pos_y = 100\<rparr>,
      data = \<lparr>label = ''End'',
        inputs = [\<lparr>field_id = ''input-1-3'', field_name = ''End'', field_type = ''none'', fieldType = Input\<rparr>],
        outputs = []\<rparr>\<rparr>"

definition ex_calculator :: NodeData where
  "ex_calculator =
     \<lparr>node_id = ''node-4'', node_type = ''Calculator'',
      position = \<lparr>pos_x = 500, pos_y = 600\<rparr>,
      data = \<lparr>label = ''Calculator'',
        inputs = [\<lparr>field_id = ''input-1-4'', field_name = ''Expression'', field_type = ''string'', fieldType = Input\<rparr>,
                  \<lparr>field_id = ''input-2-4'', field_name = ''LLM'', field_type = ''string'', fieldType = Input\<rparr>],
        outputs = [\<lparr>field_id = ''output-1-4'', field_name = ''Result'', field_type = ''number'', fieldType = Output\<rparr>]\<rparr>\<rparr>"

definition ex_webSearch :: NodeData where
  "ex_webSearch =
     \<lparr>node_id = ''node-5'', node_type = ''Web-Search-Tool'',
      position = \<lparr>pos_x = 100, pos_y = 600\<rparr>,
      data = \<lparr>label = ''Web-Search-Tool'',
        inputs = [],
        outputs = [\<lparr>field_id = ''output-1-5'', field_name = ''Tool'', field_type = ''string'', fieldType = Output\<rparr>]\<rparr>\<rparr>"

definition ex_edge1 :: EdgeData where
  "ex_edge1 = \<lparr>edge_id = ''edge-1'', source = ''node-1'', sourceHandle = ''output-1-1'',
               target = ''node-2'', targetHandle = ''input-3-2''\<rparr>"

definition ex_edge2 :: EdgeData where
  "ex_edge2 = \<lparr>edge_id = ''edge-2'', source = ''node-2'', sourceHandle = ''output-1-2'',
               target = ''node-3'', targetHandle = ''input-1-3''\<rparr>"

definition ex_edge3 :: EdgeData where
  "ex_edge3 = \<lparr>edge_id = ''edge-3'', source = ''node-5'', sourceHandle = ''output-1-5'',
               target = ''node-2'', targetHandle = ''input-1-2''\<rparr>"

definition ex_nodes :: "NodeData list" where
  "ex_nodes = [ex_textInput, ex_textAgent, ex_end]"

definition ex_edges :: "EdgeData list" where
  "ex_edges = [ex_edge1, ex_edge2]"

definition ex_state :: PlaygroundState where
  "ex_state = \<lparr>st_nodes = ex_nodes, st_edges = ex_edges\<rparr>"

definition ex_viewport :: Viewport where
  "ex_viewport = \<lparr>vp_scale = 1, vp_offset = \<lparr>pos_x = 0, pos_y = 0\<rparr>\<rparr>"

definition ex_rect :: DOMRect where
  "ex_rect = \<lparr>rect_left = 0, rect_top = 0\<rparr>"

definition ex_idle :: WorkspaceState where
  "ex_idle = \<lparr>connectionStart = None, mousePosition = \<lparr>pos_x = 0, pos_y = 0\<rparr>,
              snapFieldId = None, ws_drag = None\<rparr>"

text \<open>
  A drag that started on the output dot of the \<^verbatim>\<open>Text-Input-Tool\<close> node, and an anchor
  table for the three wired ports.
\<close>

definition ex_dragging :: WorkspaceState where
  "ex_dragging =
     handleFieldMouseDown ex_idle ex_viewport (Some ex_rect) \<lparr>pos_x = 300, pos_y = 100\<rparr> ''node-1''
       \<lparr>field_id = ''output-1-1'', field_name = ''Text'', field_type = ''string'', fieldType = Output\<rparr>"

definition ex_fieldPositions :: "(string \<times> Position) list" where
  "ex_fieldPositions =
     [(''output-1-1'', \<lparr>pos_x = 300, pos_y = 100\<rparr>),
      (''input-3-2'', \<lparr>pos_x = 500, pos_y = 200\<rparr>),
      (''input-1-3'', \<lparr>pos_x = 900, pos_y = 200\<rparr>)]"

lemmas ex_defs = ex_state_def ex_nodes_def ex_edges_def ex_textInput_def ex_textAgent_def ex_end_def ex_calculator_def
  ex_edge1_def ex_edge2_def ex_edge3_def ex_webSearch_def ex_viewport_def ex_rect_def ex_idle_def


section \<open>The pattern matcher\<close>

subsection \<open>Strings\<close>

lemma includesStr_sublist: "includesStr hay needle \<longleftrightarrow> sublist needle hay"
  by (induction hay) (auto simp add: sublist_Cons_right)

lemma splitStr_not_Nil: "splitStr sep s \<noteq> []"
  by (induction s) (auto split: list.splits)

lemma splitStr_no_sep: "sep \<notin> set s \<Longrightarrow> splitStr sep s = [s]"
  by (induction s) auto

lemma splitStr_append: "sep \<notin> set a \<Longrightarrow> splitStr sep (a @ sep # b) = a # splitStr sep b"
  by (induction a) auto

lemma splitStr_two: "sep \<notin> set a \<Longrightarrow> sep \<notin> set b \<Longrightarrow> splitStr sep (a @ sep # b) = [a, b]"
  by (simp add: splitStr_append splitStr_no_sep)

lemma splitStr_has_two: "sep \<in> set s \<Longrightarrow> \<exists>a b rest. splitStr sep s = a # b # rest"
proof (induction s)
  case Nil
  then show ?case by simp
next
  case (Cons c cs)
  show ?case
  proof (cases "c = sep")
    case True
    then show ?thesis
      using splitStr_not_Nil[of sep cs] by (cases "splitStr sep cs") auto
  next
    case False
    with Cons.prems have "sep \<in> set cs" by auto
    then obtain a b rest where "splitStr sep cs = a # b # rest"
      using Cons.IH by blast
    with False show ?thesis by simp
  qed
qed

lemma portsMatch_split:
  assumes "splitStr arrow conn = [s, t]" and "splitStr arrow portConn = [es, et]"
  shows "portsMatch conn portConn =
         Inr (includesStr (toLowerCase s) (toLowerCase es) \<and> includesStr (toLowerCase t) (toLowerCase et))"
  using assms by (simp add: portsMatch_def)

lemma portsMatch_no_error:
  assumes "arrow \<in> set conn" and "arrow \<in> set portConn"
  shows "\<exists>b. portsMatch conn portConn = Inr b"
proof -
  obtain a b r where 1: "splitStr arrow conn = a # b # r"
    using splitStr_has_two[OF assms(1)] by blast
  obtain a' b' r' where 2: "splitStr arrow portConn = a' # b' # r'"
    using splitStr_has_two[OF assms(2)] by blast
  show ?thesis by (auto simp add: portsMatch_def 1 2)
qed

lemma someMatch_no_error:
  assumes "\<forall>conn \<in> set conns. arrow \<in> set conn" and "arrow \<in> set portConn"
  shows "\<exists>b. someMatch portConn conns = Inr b"
  using assms(1)
proof (induction conns)
  case Nil
  then show ?case by auto
next
  case (Cons conn conns)
  then obtain b where "portsMatch conn portConn = Inr b"
    using portsMatch_no_error[of conn portConn] assms(2) by auto
  with Cons show ?case by (cases b) auto
qed

subsection \<open>Facts about the catalog\<close>

text \<open>
  Every required kind of a pattern is free of the arrow and occurs in one of the pattern's
  node connections; every port constraint is two names joined by one arrow.
\<close>

lemma catalog_types:
  "\<forall>p \<in> set workflowPatterns. \<forall>t \<in> set (requiredNodeTypes p).
     arrow \<notin> set t \<and> (\<exists>c \<in> set (connections p). t \<in> set (splitStr arrow (nodeConnection c)))"
  by code_simp

lemma catalog_ports:
  "\<forall>p \<in> set workflowPatterns. \<forall>c \<in> set (connections p). arrow \<in> set (portConnection c)"
  by code_simp

lemma catalog_ports_two:
  "\<forall>p \<in> set workflowPatterns. \<forall>c \<in> set (connections p). length (splitStr arrow (portConnection c)) = 2"
  by code_simp

subsection \<open>The connection table and the checks\<close>

lemma find_SomeD: "find P xs = Some y \<Longrightarrow> y \<in> set xs \<and> P y"
  by (induction xs) (auto split: if_splits)

lemma set_newSet_acc:
  "set (foldl (\<lambda>acc v. if v \<in> set acc then acc else acc @ [v]) acc xs) = set acc \<union> set xs"
  by (induction xs arbitrary: acc) auto

lemma set_newSet: "set (newSet xs) = set xs"
  by (simp add: newSet_def set_newSet_acc)

lemma zip_all_eq:
  "length xs = length ys \<Longrightarrow> list_all (\<lambda>(t, w). t = w) (zip xs ys) \<Longrightarrow> xs = ys"
  by (induction xs ys rule: list_induct2) auto

lemma edgeEntry_SomeD:
  assumes "edgeEntry ns e = Some (k, entry)"
  shows "\<exists>sn tn. find (\<lambda>n. node_id n = source e) ns = Some sn \<and>
                 find (\<lambda>n. node_id n = target e) ns = Some tn \<and>
                 k = node_type sn @ arrow # node_type tn \<and>
                 (\<forall>s. entry = Some s \<longrightarrow> arrow \<in> set s)"
  using assms by (auto simp add: edgeEntry_def split: option.splits)

lemma addConnection_inv:
  assumes "\<forall>k l. conns k = Some l \<longrightarrow>
             (\<exists>e \<in> E. \<exists>entry. edgeEntry ns e = Some (k, entry)) \<and> (\<forall>s \<in> set l. arrow \<in> set s)"
      and "edge \<in> E"
  shows "\<forall>k l. addConnection ns conns edge k = Some l \<longrightarrow>
             (\<exists>e \<in> E. \<exists>entry. edgeEntry ns e = Some (k, entry)) \<and> (\<forall>s \<in> set l. arrow \<in> set s)"
proof (cases "edgeEntry ns edge")
  case None
  then show ?thesis using assms(1) by (simp add: addConnection_def)
next
  case (Some ke)
  obtain k0 entry where ke: "ke = (k0, entry)" by (cases ke)
  have ar: "\<forall>s. entry = Some s \<longrightarrow> arrow \<in> set s"
    using edgeEntry_SomeD[of ns edge k0 entry] Some ke by blast
  show ?thesis
  proof (intro allI impI)
    fix k l
    assume a: "addConnection ns conns edge k = Some l"
    show "(\<exists>e \<in> E. \<exists>entry. edgeEntry ns e = Some (k, entry)) \<and> (\<forall>s \<in> set l. arrow \<in> set s)"
    proof (cases "k = k0")
      case False
      with a Some ke have "conns k = Some l"
        by (simp add: addConnection_def Let_def)
      with assms(1) show ?thesis by blast
    next
      case True
      have 1: "\<exists>e \<in> E. \<exists>entry. edgeEntry ns e = Some (k, entry)"
        using True Some ke assms(2) by blast
      have old: "\<forall>s \<in> set (case conns k0 of None \<Rightarrow> [] | Some l \<Rightarrow> l). arrow \<in> set s"
      proof (cases "conns k0")
        case None
        then show ?thesis by simp
      next
        case (Some l0)
        with assms(1) have "\<forall>s \<in> set l0. arrow \<in> set s" by blast
        with Some show ?thesis by simp
      qed
      from a True Some ke have
        "l = (case entry of None \<Rightarrow> (case conns k0 of None \<Rightarrow> [] | Some l \<Rightarrow> l)
              | Some s \<Rightarrow> (case conns k0 of None \<Rightarrow> [] | Some l \<Rightarrow> l) @ [s])"
        by (simp add: addConnection_def Let_def)
      with old ar have "\<forall>s \<in> set l. arrow \<in> set s"
        by (cases entry) auto
      with 1 show ?thesis by blast
    qed
  qed
qed

lemma foldl_addConnection_inv:
  assumes "\<forall>k l. conns k = Some l \<longrightarrow>
             (\<exists>e \<in> E. \<exists>entry. edgeEntry ns e = Some (k, entry)) \<and> (\<forall>s \<in> set l. arrow \<in> set s)"
      and "set es \<subseteq> E"
  shows "\<forall>k l. foldl (addConnection ns) conns es k = Some l \<longrightarrow>
             (\<exists>e \<in> E. \<exists>entry. edgeEntry ns e = Some (k, entry)) \<and> (\<forall>s \<in> set l. arrow \<in> set s)"
  using assms
proof (induction es arbitrary: conns)
  case Nil
  then show ?case by simp
next
  case (Cons e es)
  have "e \<in> E"
    using Cons.prems(2) by simp
  then have 1: "\<forall>k l. addConnection ns conns e k = Some l \<longrightarrow>
             (\<exists>e \<in> E. \<exists>entry. edgeEntry ns e = Some (k, entry)) \<and> (\<forall>s \<in> set l. arrow \<in> set s)"
    by (rule addConnection_inv[OF Cons.prems(1)])
  have 2: "set es \<subseteq> E"
    using Cons.prems(2) by simp
  have "foldl (addConnection ns) conns (e # es) = foldl (addConnection ns) (addConnection ns conns e) es"
    by simp
  then show ?case
    using Cons.IH[OF 1 2] by (simp only:)
qed

lemma buildConnections_SomeD:
  assumes "buildConnections ns es k = Some l"
  shows "(\<exists>e \<in> set es. \<exists>sn tn. find (\<lambda>n. node_id n = source e) ns = Some sn \<and>
                 find (\<lambda>n. node_id n = target e) ns = Some tn \<and>
                 k = node_type sn @ arrow # node_type tn) \<and> (\<forall>s \<in> set l. arrow \<in> set s)"
proof -
  have e: "\<forall>k l. Map.empty k = Some l \<longrightarrow>
             (\<exists>e \<in> set es. \<exists>entry. edgeEntry ns e = Some (k, entry)) \<and> (\<forall>s \<in> set l. arrow \<in> set s)"
    by simp
  have "\<forall>k l. foldl (addConnection ns) Map.empty es k = Some l \<longrightarrow>
             (\<exists>e \<in> set es. \<exists>entry. edgeEntry ns e = Some (k, entry)) \<and> (\<forall>s \<in> set l. arrow \<in> set s)"
    by (rule foldl_addConnection_inv[OF e]) simp
  moreover have "foldl (addConnection ns) Map.empty es k = Some l"
    using assms by (simp only: buildConnections_def)
  ultimately obtain e entry where "e \<in> set es" and ee: "edgeEntry ns e = Some (k, entry)"
    and ar: "\<forall>s \<in> set l. arrow \<in> set s"
    by blast
  from edgeEntry_SomeD[OF ee] \<open>e \<in> set es\<close> ar show ?thesis
    by blast
qed

lemma checkConnections_TrueD:
  "checkConnections conns cs = Inr True \<Longrightarrow> \<forall>c \<in> set cs. conns (nodeConnection c) \<noteq> None"
  by (induction cs) (auto split: option.splits sum.splits bool.splits)

lemma checkConnections_no_error:
  assumes "\<forall>k l. conns k = Some l \<longrightarrow> (\<forall>s \<in> set l. arrow \<in> set s)"
      and "\<forall>c \<in> set cs. arrow \<in> set (portConnection c)"
  shows "\<exists>b. checkConnections conns cs = Inr b"
  using assms(2)
proof (induction cs)
  case Nil
  then show ?case by auto
next
  case (Cons c cs)
  show ?case
  proof (cases "conns (nodeConnection c)")
    case None
    then show ?thesis by auto
  next
    case (Some l)
    then have "\<forall>s \<in> set l. arrow \<in> set s" using assms(1) by blast
    then obtain b where "someMatch (portConnection c) l = Inr b"
      using someMatch_no_error[of l "portConnection c"] Cons.prems by auto
    with Some Cons show ?thesis by (cases b) auto
  qed
qed

lemma checkWorkflowPattern_TrueD:
  assumes "checkWorkflowPattern ns es pid = Inr True"
  shows "\<exists>p \<in> set workflowPatterns. pattern_id p = pid \<and>
           set (map node_type ns) = set (requiredNodeTypes p) \<and>
           checkConnections (buildConnections ns es) (connections p) = Inr True"
proof -
  obtain p where f: "find (\<lambda>p. pattern_id p = pid) workflowPatterns = Some p"
    using assms by (auto simp add: checkWorkflowPattern_def split: option.splits)
  from assms f have len: "length (sort (requiredNodeTypes p)) = length (sort (newSet (map node_type ns)))"
    and al: "list_all (\<lambda>(t, w). t = w) (zip (sort (requiredNodeTypes p)) (sort (newSet (map node_type ns))))"
    and cc: "checkConnections (buildConnections ns es) (connections p) = Inr True"
    by (auto simp add: checkWorkflowPattern_def Let_def split: if_splits)
  from zip_all_eq[OF len al] have "set (sort (requiredNodeTypes p)) = set (sort (newSet (map node_type ns)))"
    by simp
  then have "set (map node_type ns) = set (requiredNodeTypes p)"
    by (simp add: set_newSet del: set_map)
  with find_SomeD[OF f] cc show ?thesis by blast
qed

lemma checkWorkflowPattern_no_error: "\<exists>b. checkWorkflowPattern ns es pid = Inr b"
proof (cases "find (\<lambda>p. pattern_id p = pid) workflowPatterns")
  case None
  then show ?thesis by (auto simp add: checkWorkflowPattern_def)
next
  case (Some p)
  then have "p \<in> set workflowPatterns" using find_SomeD by fast
  then have ports: "\<forall>c \<in> set (connections p). arrow \<in> set (portConnection c)"
    using catalog_ports by blast
  have "\<forall>k l. buildConnections ns es k = Some l \<longrightarrow> (\<forall>s \<in> set l. arrow \<in> set s)"
    using buildConnections_SomeD by blast
  from checkConnections_no_error[OF this ports]
  obtain b where "checkConnections (buildConnections ns es) (connections p) = Inr b" by blast
  with Some show ?thesis by (auto simp add: checkWorkflowPattern_def Let_def)
qed

lemma unconnected_kind_no_pattern:
  assumes x: "x \<in> set ns"
    and un: "\<forall>n \<in> set ns. node_type n = node_type x \<longrightarrow>
               (\<forall>e \<in> set es. source e \<noteq> node_id n \<and> target e \<noteq> node_id n)"
  shows "checkWorkflowPattern ns es pid = Inr False"
proof -
  have "checkWorkflowPattern ns es pid \<noteq> Inr True"
  proof
    assume "checkWorkflowPattern ns es pid = Inr True"
    then obtain p where p: "p \<in> set workflowPatterns"
      and kinds: "set (map node_type ns) = set (requiredNodeTypes p)"
      and cc: "checkConnections (buildConnections ns es) (connections p) = Inr True"
      using checkWorkflowPattern_TrueD by blast
    have "node_type x \<in> set (requiredNodeTypes p)"
      using x kinds by auto
    then obtain c where c: "c \<in> set (connections p)"
      and tc: "node_type x \<in> set (splitStr arrow (nodeConnection c))"
      using catalog_types p by blast
    from checkConnections_TrueD[OF cc] c obtain l where
      "buildConnections ns es (nodeConnection c) = Some l" by auto
    then obtain e sn tn where e: "e \<in> set es"
      and sn: "find (\<lambda>n. node_id n = source e) ns = Some sn"
      and tn: "find (\<lambda>n. node_id n = target e) ns = Some tn"
      and k: "nodeConnection c = node_type sn @ arrow # node_type tn"
      using buildConnections_SomeD by blast
    have sn': "sn \<in> set ns" "node_id sn = source e" using find_SomeD[OF sn] by auto
    have tn': "tn \<in> set ns" "node_id tn = target e" using find_SomeD[OF tn] by auto
    have "node_type sn \<in> set (requiredNodeTypes p)" "node_type tn \<in> set (requiredNodeTypes p)"
      using sn'(1) tn'(1) kinds by auto
    then have "arrow \<notin> set (node_type sn)" "arrow \<notin> set (node_type tn)"
      using catalog_types p by blast+
    then have "splitStr arrow (nodeConnection c) = [node_type sn, node_type tn]"
      unfolding k by (rule splitStr_two)
    with tc have "node_type sn = node_type x \<or> node_type tn = node_type x" by auto
    then show False
      using un sn' tn' e by metis
  qed
  then show ?thesis
    using checkWorkflowPattern_no_error[of ns es pid] by (metis (full_types))
qed

lemma detectLoop_None:
  assumes "\<And>pid. checkWorkflowPattern ns es pid = Inr False"
  shows "detectLoop ns es ps = Inr None"
  by (induction ps) (simp_all add: assms)

subsection \<open>The exact kind set\<close>

lemma catalog_end: "\<forall>p \<in> set workflowPatterns. ''End'' \<in> set (requiredNodeTypes p)"
  by code_simp

text \<open>
  Claim C1: the matcher accepts a pattern of the catalog only if the set of node kinds of
  the graph equals the required kinds of the pattern. Consequently, when a graph matches a
  pattern and one node of a kind not yet in the graph is added, with no edge to or from it,
  no pattern of the catalog is accepted, the detection returns null, and the play handler
  sends the graph to the dynamic workflow route.
\<close>

theorem exact_kind_set:
  "(checkWorkflowPattern ns es pid = Inr True \<longrightarrow>
      (\<exists>p \<in> set workflowPatterns. pattern_id p = pid \<and>
         set (map node_type ns) = set (requiredNodeTypes p))) \<and>
   (checkWorkflowPattern ns es pid = Inr True \<and>
    node_type extra \<notin> set (map node_type ns) \<and>
    (\<forall>e \<in> set es. source e \<noteq> node_id extra \<and> target e \<noteq> node_id extra) \<longrightarrow>
      (\<forall>q. checkWorkflowPattern (ns @ [extra]) es q = Inr False) \<and>
      detectWorkflowPattern (ns @ [extra]) es = Inr None \<and>
      handlePlayClick (ns @ [extra]) es =
        DynamicRoute ''http://localhost:8000/execute_dynamic_workflow'' (ns @ [extra])
          (filter (\<lambda>edge. source edge \<in> set (map node_id (ns @ [extra])) \<and>
                           target edge \<in> set (map node_id (ns @ [extra]))) es))"
proof (intro conjI impI)
  assume "checkWorkflowPattern ns es pid = Inr True"
  then show "\<exists>p \<in> set workflowPatterns. pattern_id p = pid \<and>
         set (map node_type ns) = set (requiredNodeTypes p)"
    using checkWorkflowPattern_TrueD by blast
next
  assume a: "checkWorkflowPattern ns es pid = Inr True \<and>
    node_type extra \<notin> set (map node_type ns) \<and>
    (\<forall>e \<in> set es. source e \<noteq> node_id extra \<and> target e \<noteq> node_id extra)"
  have x: "extra \<in> set (ns @ [extra])" by simp
  have un: "\<forall>n \<in> set (ns @ [extra]). node_type n = node_type extra \<longrightarrow>
               (\<forall>e \<in> set es. source e \<noteq> node_id n \<and> target e \<noteq> node_id n)"
  proof (rule ballI, rule impI)
    fix n
    assume n: "n \<in> set (ns @ [extra])" and t: "node_type n = node_type extra"
    have "node_type extra \<notin> node_type ` set ns"
      using a by simp
    then have "n \<notin> set ns"
      using t by (metis imageI)
    with n have "n = extra"
      by simp
    with a show "\<forall>e \<in> set es. source e \<noteq> node_id n \<and> target e \<noteq> node_id n"
      by simp
  qed
  have none: "checkWorkflowPattern (ns @ [extra]) es q = Inr False" for q
    by (rule unconnected_kind_no_pattern[OF x un])
  then show all: "\<forall>q. checkWorkflowPattern (ns @ [extra]) es q = Inr False"
    by blast
  show det: "detectWorkflowPattern (ns @ [extra]) es = Inr None"
    unfolding detectWorkflowPattern_def by (rule detectLoop_None) (rule none)
  obtain p where "p \<in> set workflowPatterns" and "set (map node_type ns) = set (requiredNodeTypes p)"
    using a checkWorkflowPattern_TrueD by blast
  then have "''End'' \<in> set (map node_type ns)"
    using catalog_end by blast
  then have "list_ex (\<lambda>node. node_type node = ''End'') (ns @ [extra])"
    by (auto simp add: list_ex_iff)
  then show "handlePlayClick (ns @ [extra]) es =
        DynamicRoute ''http://localhost:8000/execute_dynamic_workflow'' (ns @ [extra])
          (filter (\<lambda>edge. source edge \<in> set (map node_id (ns @ [extra])) \<and>
                           target edge \<in> set (map node_id (ns @ [extra]))) es)"
    by (simp add: handlePlayClick_def det Let_def)
qed

theorem exact_kind_set_witness:
  "checkWorkflowPattern ex_nodes ex_edges ''text-agent'' = Inr True \<and>
   set (map node_type ex_nodes) = {''Text-Agent'', ''Text-Input-Tool'', ''End''} \<and>
   node_type ex_calculator \<notin> set (map node_type ex_nodes) \<and>
   node_id ex_calculator \<notin> set (map source ex_edges @ map target ex_edges) \<and>
   detectWorkflowPattern (ex_nodes @ [ex_calculator]) ex_edges = Inr None \<and>
   handlePlayClick (ex_nodes @ [ex_calculator]) ex_edges =
     DynamicRoute ''http://localhost:8000/execute_dynamic_workflow'' (ex_nodes @ [ex_calculator])
       ex_edges"
proof -
  have m: "checkWorkflowPattern ex_nodes ex_edges ''text-agent'' = Inr True"
    by code_simp
  have k: "set (map node_type ex_nodes) = {''Text-Agent'', ''Text-Input-Tool'', ''End''}"
    by (auto simp add: ex_defs)
  have f: "node_type ex_calculator \<notin> set (map node_type ex_nodes)"
    by (simp add: ex_defs)
  have u: "\<forall>e \<in> set ex_edges.
             source e \<noteq> node_id ex_calculator \<and> target e \<noteq> node_id ex_calculator"
    by (simp add: ex_defs)
  have u': "node_id ex_calculator \<notin> set (map source ex_edges @ map target ex_edges)"
    by (simp add: ex_defs)
  have live: "filter (\<lambda>edge. source edge \<in> set (map node_id (ex_nodes @ [ex_calculator])) \<and>
                            target edge \<in> set (map node_id (ex_nodes @ [ex_calculator]))) ex_edges =
              ex_edges"
    by (simp add: ex_defs)
  from m f u exact_kind_set[of ex_nodes ex_edges "''text-agent''" ex_calculator]
  have d: "detectWorkflowPattern (ex_nodes @ [ex_calculator]) ex_edges = Inr None"
    and h: "handlePlayClick (ex_nodes @ [ex_calculator]) ex_edges =
        DynamicRoute ''http://localhost:8000/execute_dynamic_workflow'' (ex_nodes @ [ex_calculator])
          (filter (\<lambda>edge. source edge \<in> set (map node_id (ex_nodes @ [ex_calculator])) \<and>
                           target edge \<in> set (map node_id (ex_nodes @ [ex_calculator]))) ex_edges)"
    by blast+
  show ?thesis
    using m k f u' d h by (simp only: live) simp
qed

text \<open>
  The extra node has to be free of edges: the same graph with a \<^verbatim>\<open>Web-Search-Tool\<close> node
  wired into the \<^verbatim>\<open>Tools\<close> input of the agent has exactly the kinds of the web-search pattern
  and satisfies its connections.
\<close>

lemma connected_extra_node_matches:
  "detectWorkflowPattern (ex_nodes @ [ex_webSearch]) (ex_edges @ [ex_edge3]) =
     Inr (Some (''web-search'', ''http://localhost:8000/web_agent''))"
  by code_simp

subsection \<open>Port names\<close>

text \<open>
  Claim C2, as the code has it: for an edge whose ends resolve to an output port and an input
  port, the entry of the connection table satisfies a constraint exactly when the output's
  name contains the expected output name and the input's name contains the expected input
  name, ignoring case. (The names are taken free of the arrow, as all names of the catalog
  are; \<open>includesStr hay needle\<close> is \<open>sublist needle hay\<close>.)
\<close>

theorem portsMatch_contains:
  assumes "find (\<lambda>n. node_id n = source e) ns = Some sn"
    and "find (\<lambda>n. node_id n = target e) ns = Some tn"
    and "find (\<lambda>out. field_id out = sourceHandle e) (outputs (data sn)) = Some sourceOutput"
    and "find (\<lambda>i. field_id i = targetHandle e) (inputs (data tn)) = Some targetInput"
    and "arrow \<notin> set (field_name sourceOutput)" and "arrow \<notin> set (field_name targetInput)"
    and "splitStr arrow portConn = [expectedSourcePort, expectedTargetPort]"
  shows "edgeEntry ns e =
           Some (node_type sn @ arrow # node_type tn,
                 Some (field_name sourceOutput @ arrow # field_name targetInput)) \<and>
         portsMatch (field_name sourceOutput @ arrow # field_name targetInput) portConn =
           Inr (includesStr (toLowerCase (field_name sourceOutput)) (toLowerCase expectedSourcePort) \<and>
                includesStr (toLowerCase (field_name targetInput)) (toLowerCase expectedTargetPort))"
proof
  show "edgeEntry ns e =
           Some (node_type sn @ arrow # node_type tn,
                 Some (field_name sourceOutput @ arrow # field_name targetInput))"
    using assms(1-4) by (simp add: edgeEntry_def)
  have "splitStr arrow (field_name sourceOutput @ arrow # field_name targetInput) =
        [field_name sourceOutput, field_name targetInput]"
    using assms(5,6) by (rule splitStr_two)
  then show "portsMatch (field_name sourceOutput @ arrow # field_name targetInput) portConn =
           Inr (includesStr (toLowerCase (field_name sourceOutput)) (toLowerCase expectedSourcePort) \<and>
                includesStr (toLowerCase (field_name targetInput)) (toLowerCase expectedTargetPort))"
    using assms(7) by (rule portsMatch_split)
qed

theorem portsMatch_contains_witness:
  "edgeEntry ex_nodes ex_edge1 =
     Some (''Text-Input-Tool'' @ arrow # ''Text-Agent'', Some (''Text'' @ arrow # ''Query'')) \<and>
   portsMatch (''Text'' @ arrow # ''Query'') (''Text'' @ arrow # ''Query'') = Inr True"
proof -
  have 1: "find (\<lambda>n. node_id n = source ex_edge1) ex_nodes = Some ex_textInput"
    by (simp add: ex_defs)
  have 2: "find (\<lambda>n. node_id n = target ex_edge1) ex_nodes = Some ex_textAgent"
    by (simp add: ex_defs)
  have 3: "find (\<lambda>out. field_id out = sourceHandle ex_edge1) (outputs (data ex_textInput)) =
           Some \<lparr>field_id = ''output-1-1'', field_name = ''Text'', field_type = ''string'', fieldType = Output\<rparr>"
    by (simp add: ex_defs)
  have 4: "find (\<lambda>i. field_id i = targetHandle ex_edge1) (inputs (data ex_textAgent)) =
           Some \<lparr>field_id = ''input-3-2'', field_name = ''Query'', field_type = ''none'', fieldType = Input\<rparr>"
    by (simp add: ex_defs)
  have 5: "arrow \<notin> set (field_name \<lparr>field_id = ''output-1-1'', field_name = ''Text'', field_type = ''string'', fieldType = Output\<rparr>)"
    by (simp add: arrow_def)
  have 6: "arrow \<notin> set (field_name \<lparr>field_id = ''input-3-2'', field_name = ''Query'', field_type = ''none'', fieldType = Input\<rparr>)"
    by (simp add: arrow_def)
  have 7: "splitStr arrow (''Text'' @ arrow # ''Query'') = [''Text'', ''Query'']"
    by (simp add: arrow_def)
  have 8: "includesStr (toLowerCase ''Text'') (toLowerCase ''Text'') \<and> includesStr (toLowerCase ''Query'') (toLowerCase ''Query'')"
    by code_simp
  show ?thesis
    using portsMatch_contains[OF 1 2 3 4 5 6 7] 8
    by (simp add: ex_defs)
qed

text \<open>
  Claim C2 as stated fails: it also counts a name that is contained in the expected one.
  An output labelled \<^verbatim>\<open>Res\<close> is contained in the expected \<^verbatim>\<open>Result\<close>, yet the matcher
  rejects it.
\<close>

theorem contained_by_counterexample:
  "portNamesCompatible ''Res'' ''Result'' \<and> portNamesCompatible ''End'' ''End'' \<and>
   portsMatch (''Res'' @ arrow # ''End'') (''Result'' @ arrow # ''End'') = Inr False"
  by code_simp

section \<open>The edge set under node removal\<close>

text \<open>
  Whatever the state, the clean-up effect leaves only edges between current nodes, and it
  leaves a state alone that has no other edges.
\<close>

lemma cleanupEdges_valid: "edgesValid (cleanupEdges st)"
  by (auto simp add: edgesValid_def cleanupEdges_def Let_def list_all_iff filter_empty_conv)

lemma cleanupEdges_idle: "edgesValid st \<Longrightarrow> cleanupEdges st = st"
  by (auto simp add: edgesValid_def cleanupEdges_def Let_def list_all_iff filter_empty_conv)

text \<open>
  Claim C3: after every operation the edge set holds only edges whose source and target are
  current nodes. The delete button breaks this. In the example the \<^verbatim>\<open>Text-Agent\<close> node has
  two edges; the click calls \<^verbatim>\<open>onRemoveEdge\<close> for each, both calls filter the same snapshot,
  and the second value replaces the first: the next render holds the nodes \<^verbatim>\<open>node-1\<close> and
  \<^verbatim>\<open>node-3\<close> and still the edge into \<^verbatim>\<open>node-2\<close>. Only the clean-up effect after that
  render removes it.
\<close>

theorem removeNode_leaves_dangling_edge:
  "edgesValid ex_state \<and>
   map node_id (st_nodes (removeNodeClick ex_state ''node-2'')) = [''node-1'', ''node-3''] \<and>
   map target (st_edges (removeNodeClick ex_state ''node-2'')) = [''node-2''] \<and>
   \<not> edgesValid (removeNodeClick ex_state ''node-2'')"
  by (simp add: edgesValid_def removeNodeClick_def handleRemoveEdge_def ex_defs)

text \<open>
  Claim C5: removing a node with two connected edges removes both edges at once, so that the
  edge count seen right after the removal is the previous count minus two. In the example
  the state after the click has one edge less, not two: the first of the two connected
  edges is back. The count reaches the previous count minus two one render later, through
  the clean-up effect.
\<close>

theorem removeNode_two_edges_leaves_one:
  "filter (\<lambda>edge. source edge = ''node-2'' \<or> target edge = ''node-2'') (st_edges ex_state) =
     [ex_edge1, ex_edge2] \<and>
   st_edges (removeNodeClick ex_state ''node-2'') = [ex_edge1] \<and>
   length (st_edges (removeNodeClick ex_state ''node-2'')) = length (st_edges ex_state) - 1"
  by (simp add: removeNodeClick_def handleRemoveEdge_def ex_defs)

lemma removeNode_then_cleanup:
  "length (st_edges (cleanupEdges (removeNodeClick ex_state ''node-2''))) =
     length (st_edges ex_state) - 2"
  by (simp add: removeNodeClick_def handleRemoveEdge_def cleanupEdges_def ex_defs)

section \<open>Adding an edge\<close>

lemma same4_self: "same4 (edge\<lparr>edge_id := i\<rparr>) edge"
  by (simp add: same4_def)

text \<open>
  Claim C4: \<^verbatim>\<open>handleAddEdge\<close> is idempotent on the tuple of source, source handle, target and
  target handle. A candidate whose tuple is already present leaves the state as it is; a
  second submission of the same candidate changes nothing; and when the tuple was absent,
  two submissions leave exactly one edge with it.
\<close>

theorem handleAddEdge_idempotent:
  "(list_ex (\<lambda>e. same4 e edge) (st_edges st) \<longrightarrow> handleAddEdge st now edge = st) \<and>
   handleAddEdge (handleAddEdge st now edge) now' edge = handleAddEdge st now edge \<and>
   (\<not> list_ex (\<lambda>e. same4 e edge) (st_edges st) \<longrightarrow>
      length (filter (\<lambda>e. same4 e edge)
        (st_edges (handleAddEdge (handleAddEdge st now edge) now' edge))) = 1)"
proof (intro conjI impI)
  assume "list_ex (\<lambda>e. same4 e edge) (st_edges st)"
  then show "handleAddEdge st now edge = st"
    by (simp add: handleAddEdge_def)
next
  have "list_ex (\<lambda>e. same4 e edge) (st_edges (handleAddEdge st now edge))"
    by (simp add: handleAddEdge_def Let_def same4_self list_ex_iff)
  then show twice:
    "handleAddEdge (handleAddEdge st now edge) now' edge = handleAddEdge st now edge"
    by (simp add: handleAddEdge_def[of "handleAddEdge st now edge"])
  assume fresh: "\<not> list_ex (\<lambda>e. same4 e edge) (st_edges st)"
  then have "filter (\<lambda>e. same4 e edge) (st_edges st) = []"
    by (simp add: list_ex_iff filter_empty_conv)
  with fresh have
    "length (filter (\<lambda>e. same4 e edge) (st_edges (handleAddEdge st now edge))) = 1"
    by (simp add: handleAddEdge_def same4_self)
  with twice show
    "length (filter (\<lambda>e. same4 e edge)
       (st_edges (handleAddEdge (handleAddEdge st now edge) now' edge))) = 1"
    by simp
qed

theorem handleAddEdge_idempotent_witness:
  "\<not> list_ex (\<lambda>e. same4 e ex_edge2) (st_edges (ex_state\<lparr>st_edges := [ex_edge1]\<rparr>)) \<and>
   length (filter (\<lambda>e. same4 e ex_edge2)
     (st_edges (handleAddEdge
        (handleAddEdge (ex_state\<lparr>st_edges := [ex_edge1]\<rparr>) ''1700000000001'' ex_edge2)
        ''1700000000002'' ex_edge2))) = 1 \<and>
   list_ex (\<lambda>e. same4 e ex_edge2) (st_edges ex_state) \<and>
   handleAddEdge ex_state ''1700000000003'' ex_edge2 = ex_state"
proof -
  have fresh: "\<not> list_ex (\<lambda>e. same4 e ex_edge2) (st_edges (ex_state\<lparr>st_edges := [ex_edge1]\<rparr>))"
    by (simp add: same4_def ex_defs)
  have present: "list_ex (\<lambda>e. same4 e ex_edge2) (st_edges ex_state)"
    by (simp add: same4_def ex_defs)
  show ?thesis
    using fresh present
      handleAddEdge_idempotent[of ex_edge2 "ex_state\<lparr>st_edges := [ex_edge1]\<rparr>"
        "''1700000000001''" "''1700000000002''"]
      handleAddEdge_idempotent[of ex_edge2 ex_state "''1700000000003''"]
    by blast
qed

section \<open>The viewport\<close>

text \<open>
  Claim C6: for a scale between \<open>MIN_ZOOM\<close> and \<open>MAX_ZOOM\<close>, mapping a canvas point to the
  screen and back gives the point again. Over the real numbers the two maps are exact
  inverses.
\<close>

theorem toCanvas_toScreen:
  "MIN_ZOOM \<le> vp_scale vp \<Longrightarrow> vp_scale vp \<le> MAX_ZOOM \<Longrightarrow>
   toCanvas vp r (toScreen vp r p) = p"
  by (simp add: toCanvas_def toScreen_def MIN_ZOOM_def)

theorem toCanvas_toScreen_witness:
  "MIN_ZOOM \<le> vp_scale ex_viewport \<and> vp_scale ex_viewport \<le> MAX_ZOOM \<and>
   toCanvas ex_viewport ex_rect (toScreen ex_viewport ex_rect \<lparr>pos_x = 120, pos_y = 80\<rparr>) =
     \<lparr>pos_x = 120, pos_y = 80\<rparr>"
proof -
  have lo: "MIN_ZOOM \<le> vp_scale ex_viewport"
    by (simp add: MIN_ZOOM_def ex_viewport_def)
  have hi: "vp_scale ex_viewport \<le> MAX_ZOOM"
    by (simp add: MAX_ZOOM_def ex_viewport_def)
  show ?thesis
    using lo hi toCanvas_toScreen[OF lo hi] by simp
qed

text \<open>
  Claim C7: from a scale in range, a zoom by any delta (button or wheel) leaves the scale in
  \<open>[MIN_ZOOM, MAX_ZOOM] = [0.5, 2]\<close> and different from 0; a request beyond a bound is
  clamped to that bound.
\<close>

theorem zoom_scale_in_range:
  assumes "MIN_ZOOM \<le> vp_scale vp" and "vp_scale vp \<le> MAX_ZOOM"
  shows "0.5 \<le> vp_scale (handleZoom vp r delta) \<and>
         vp_scale (handleZoom vp r delta) \<le> 2 \<and>
         vp_scale (handleZoom vp r delta) \<noteq> 0 \<and>
         0.5 \<le> vp_scale (handleWheelEvent vp r deltaY) \<and>
         vp_scale (handleWheelEvent vp r deltaY) \<le> 2 \<and>
         vp_scale (handleWheelEvent vp r deltaY) \<noteq> 0 \<and>
         vp_scale (handleZoom vp (Some rc) delta) =
           (if vp_scale vp + delta < 0.5 then 0.5
            else if 2 < vp_scale vp + delta then 2
            else vp_scale vp + delta)"
  using assms
  by (cases r)
     (auto simp add: handleZoom_def handleWheelEvent_def Let_def MIN_ZOOM_def MAX_ZOOM_def)

theorem zoom_scale_in_range_witness:
  "MIN_ZOOM \<le> vp_scale ex_viewport \<and> vp_scale ex_viewport \<le> MAX_ZOOM \<and>
   vp_scale (handleZoom ex_viewport (Some ex_rect) 1000) = 2 \<and>
   0.5 \<le> vp_scale (handleWheelEvent ex_viewport (Some ex_rect) 53)"
proof -
  have lo: "MIN_ZOOM \<le> vp_scale ex_viewport"
    by (simp add: MIN_ZOOM_def ex_viewport_def)
  have hi: "vp_scale ex_viewport \<le> MAX_ZOOM"
    by (simp add: MAX_ZOOM_def ex_viewport_def)
  have s: "vp_scale ex_viewport = 1"
    by (simp add: ex_viewport_def)
  show ?thesis
    using lo hi zoom_scale_in_range[OF lo hi, of "Some ex_rect" 1000 53 ex_rect]
    by (simp add: s)
qed

text \<open>The wheel listener is the button handler at a step of 0.1 in the wheel's direction.\<close>

lemma handleWheelEvent_handleZoom:
  "handleWheelEvent vp r deltaY = handleZoom vp r (if deltaY > 0 then - 0.1 else 0.1)"
  by (simp add: handleWheelEvent_def handleZoom_def Let_def)

lemma newScale_pos: "0 < min (max s MIN_ZOOM) MAX_ZOOM"
  by (simp add: MIN_ZOOM_def MAX_ZOOM_def)

lemma fixed_coordinate:
  fixes s s' c off l :: real
  assumes "s' \<noteq> 0"
  shows "l + s' * (c + ((- 1 * (s' - s)) / s' + off)) = l + s * (c + off) \<longleftrightarrow>
         s' = s \<or> c = 1 - off"
proof -
  have e: "s' * ((- 1 * (s' - s)) / s') = s - s'"
    using assms by simp
  have d: "s' * (c + (q + off)) = s' * (c + off) + s' * q" for q
    by (simp add: algebra_simps)
  have "l + s' * (c + ((- 1 * (s' - s)) / s' + off)) = l + s * (c + off) \<longleftrightarrow>
        s' * (c + off) + (s - s') = s * (c + off)"
    by (simp only: d e) simp
  also have "\<dots> \<longleftrightarrow> (s' - s) * (c + off - 1) = 0"
    by (simp add: algebra_simps)
  also have "\<dots> \<longleftrightarrow> s' = s \<or> c = 1 - off"
    by auto
  finally show ?thesis .
qed

text \<open>
  Claim C8, as the code has it: the zoom takes no pivot. It clamps the new scale and moves
  both offsets by \<open>- (newScale - scale) / newScale\<close>; a canvas point keeps its screen
  position exactly when the scale did not change or the point is
  \<open>(1 - offset.x, 1 - offset.y)\<close>, wherever the pointer is.
\<close>

theorem zoom_fixed_point:
  "toScreen (handleZoom vp (Some rc) delta) rc c = toScreen vp rc c \<longleftrightarrow>
     vp_scale (handleZoom vp (Some rc) delta) = vp_scale vp \<or>
     c = \<lparr>pos_x = 1 - pos_x (vp_offset vp), pos_y = 1 - pos_y (vp_offset vp)\<rparr>"
proof -
  define s' where "s' = min (max (vp_scale vp + delta) MIN_ZOOM) MAX_ZOOM"
  have "0 < s'"
    unfolding s'_def by (rule newScale_pos)
  then have nz: "s' \<noteq> 0"
    by simp
  have sc: "vp_scale (handleZoom vp (Some rc) delta) = s'"
    by (simp add: handleZoom_def Let_def s'_def)
  have ox: "pos_x (vp_offset (handleZoom vp (Some rc) delta)) =
            (- 1 * (s' - vp_scale vp)) / s' + pos_x (vp_offset vp)"
    by (simp add: handleZoom_def Let_def s'_def)
  have oy: "pos_y (vp_offset (handleZoom vp (Some rc) delta)) =
            (- 1 * (s' - vp_scale vp)) / s' + pos_y (vp_offset vp)"
    by (simp add: handleZoom_def Let_def s'_def)
  have cx: "c = \<lparr>pos_x = 1 - pos_x (vp_offset vp), pos_y = 1 - pos_y (vp_offset vp)\<rparr> \<longleftrightarrow>
            pos_x c = 1 - pos_x (vp_offset vp) \<and> pos_y c = 1 - pos_y (vp_offset vp)"
    by (cases c) simp
  have "toScreen (handleZoom vp (Some rc) delta) rc c = toScreen vp rc c \<longleftrightarrow>
        (s' = vp_scale vp \<or> pos_x c = 1 - pos_x (vp_offset vp)) \<and>
        (s' = vp_scale vp \<or> pos_y c = 1 - pos_y (vp_offset vp))"
    unfolding toScreen_def sc ox oy
    using fixed_coordinate[OF nz, of "rect_left rc" "pos_x c" "vp_scale vp" "pos_x (vp_offset vp)"]
          fixed_coordinate[OF nz, of "rect_top rc" "pos_y c" "vp_scale vp" "pos_y (vp_offset vp)"]
    by simp
  then show ?thesis
    unfolding sc cx by blast
qed

theorem zoom_fixed_point_witness:
  "toScreen (handleZoom ex_viewport (Some ex_rect) 0.1) ex_rect \<lparr>pos_x = 1, pos_y = 1\<rparr> =
   toScreen ex_viewport ex_rect \<lparr>pos_x = 1, pos_y = 1\<rparr>"
  using zoom_fixed_point[of ex_viewport ex_rect "0.1" "\<lparr>pos_x = 1, pos_y = 1\<rparr>"]
  by (simp add: ex_viewport_def)

text \<open>
  Claim C8 as stated fails: at scale 1 and offset 0, the canvas point under the pointer at
  (100, 100) is (100, 100); after one zoom step of 0.1 that canvas point is drawn at
  (109.9, 109.9), not under the pointer.
\<close>

theorem zoom_pivot_counterexample:
  "toScreen (handleZoom ex_viewport (Some ex_rect) 0.1) ex_rect
     (toCanvas ex_viewport ex_rect \<lparr>pos_x = 100, pos_y = 100\<rparr>) \<noteq> \<lparr>pos_x = 100, pos_y = 100\<rparr>"
  by (simp add: toScreen_def toCanvas_def handleZoom_def Let_def MIN_ZOOM_def MAX_ZOOM_def
        ex_viewport_def ex_rect_def)

section \<open>Dragging a connection\<close>

text \<open>
  Claim C10, as the code has it: in an idle workspace, a pointer-down on an output dot
  starts a connection drag with that port as origin (node, field and direction) and the
  pointer's canvas position as the first preview point; a pointer-down on any other dot
  changes nothing.
\<close>

theorem fieldMouseDown_starts_drag:
  assumes "connectionStart ws = None" and "ws_drag ws = None"
  shows "(fieldType field = Output \<longrightarrow>
            connectionStart (handleFieldMouseDown ws vp (Some r) client nodeId field) =
              Some \<lparr>cs_nodeId = nodeId, cs_fieldId = field_id field, cs_type = Output\<rparr> \<and>
            ws_drag (handleFieldMouseDown ws vp (Some r) client nodeId field) =
              Some \<lparr>drag_nodeId = nodeId, drag_fieldId = field_id field, drag_fieldType = Output,
                    currentSnapCandidate = None\<rparr> \<and>
            mousePosition (handleFieldMouseDown ws vp (Some r) client nodeId field) =
              toCanvas vp r client) \<and>
         (fieldType field \<noteq> Output \<longrightarrow>
            handleFieldMouseDown ws vp (Some r) client nodeId field = ws)"
  using assms by (simp add: handleFieldMouseDown_def)

theorem fieldMouseDown_starts_drag_witness:
  "connectionStart ex_idle = None \<and> ws_drag ex_idle = None \<and>
   connectionStart ex_dragging =
     Some \<lparr>cs_nodeId = ''node-1'', cs_fieldId = ''output-1-1'', cs_type = Output\<rparr> \<and>
   handleFieldMouseDown ex_idle ex_viewport (Some ex_rect) \<lparr>pos_x = 900, pos_y = 200\<rparr> ''node-3''
     \<lparr>field_id = ''input-1-3'', field_name = ''End'', field_type = ''none'', fieldType = Input\<rparr> =
   ex_idle"
proof -
  have c: "connectionStart ex_idle = None"
    by (simp add: ex_idle_def)
  have d: "ws_drag ex_idle = None"
    by (simp add: ex_idle_def)
  show ?thesis
    unfolding ex_dragging_def
    using c d
      fieldMouseDown_starts_drag[OF c d, of
        "\<lparr>field_id = ''output-1-1'', field_name = ''Text'', field_type = ''string'', fieldType = Output\<rparr>"
        ex_viewport ex_rect "\<lparr>pos_x = 300, pos_y = 100\<rparr>" "''node-1''"]
      fieldMouseDown_starts_drag[OF c d, of
        "\<lparr>field_id = ''input-1-3'', field_name = ''End'', field_type = ''none'', fieldType = Input\<rparr>"
        ex_viewport ex_rect "\<lparr>pos_x = 900, pos_y = 200\<rparr>" "''node-3''"]
    by simp
qed

text \<open>
  Claim C10 as stated fails for input ports: with no drag in progress, a pointer-down on
  the input dot of the \<^verbatim>\<open>End\<close> node leaves \<^verbatim>\<open>connectionStart\<close> empty.
\<close>

theorem fieldMouseDown_input_counterexample:
  "connectionStart
     (handleFieldMouseDown ex_idle ex_viewport (Some ex_rect) \<lparr>pos_x = 900, pos_y = 200\<rparr> ''node-3''
        \<lparr>field_id = ''input-1-3'', field_name = ''End'', field_type = ''none'', fieldType = Input\<rparr>) =
   None"
  by (simp add: handleFieldMouseDown_def ex_idle_def)

lemma snapStep_far:
  "snapDistance <
     sqrt ((pos_x (snd entry) - mx) * (pos_x (snd entry) - mx) +
           (pos_y (snd entry) - my) * (pos_y (snd entry) - my)) \<Longrightarrow>
   snapStep snapDistance mx my acc entry = acc"
  by (simp add: snapStep_def Let_def)

lemma snapSearch_far:
  assumes "\<forall>entry \<in> set fps.
             snapDistance <
               sqrt ((pos_x (snd entry) - mx) * (pos_x (snd entry) - mx) +
                     (pos_y (snd entry) - my) * (pos_y (snd entry) - my))"
  shows "foldl (snapStep snapDistance mx my) acc fps = acc"
  using assms by (induction fps arbitrary: acc) (simp_all add: snapStep_far)

text \<open>
  A release right after a pointer-down on an output dot, with no move in between, proposes
  no edge.
\<close>

lemma release_without_move_no_edge:
  "fieldType field = Output \<Longrightarrow>
   snd (dragMouseUp elems now (handleFieldMouseDown ws vp r client nodeId field, st)) = st"
  by (simp add: dragMouseUp_def handleFieldMouseDown_def proposedEdge_def)

text \<open>
  Claim C9: a connection drag whose pointer was last seen at a canvas position farther than
  \<open>40 / scale\<close> from every anchor ends, on release, without an edge: the edge set is the
  one before, and the workspace is idle again. The release listener does not read the
  pointer; the position it acts on is that of the last move event.
\<close>

theorem release_far_no_edge:
  assumes "ws_drag ws = Some d"
    and "\<forall>entry \<in> set fps.
           40 / vp_scale vp <
             sqrt ((pos_x (snd entry) - pos_x (toCanvas vp r client)) *
                   (pos_x (snd entry) - pos_x (toCanvas vp r client)) +
                   (pos_y (snd entry) - pos_y (toCanvas vp r client)) *
                   (pos_y (snd entry) - pos_y (toCanvas vp r client)))"
  shows "snd (dragMouseUp elems now (dragMouseMove vp fps ws (Some r) client, st)) = st \<and>
         connectionStart (fst (dragMouseUp elems now (dragMouseMove vp fps ws (Some r) client, st))) =
           None \<and>
         ws_drag (fst (dragMouseUp elems now (dragMouseMove vp fps ws (Some r) client, st))) = None"
proof -
  have "snapSearch fps (40 / vp_scale vp) (pos_x (toCanvas vp r client))
          (pos_y (toCanvas vp r client)) = None"
    using snapSearch_far[OF assms(2)] by (simp add: snapSearch_def)
  then have "ws_drag (dragMouseMove vp fps ws (Some r) client) =
             Some (d\<lparr>currentSnapCandidate := None\<rparr>)"
    using assms(1) by (simp add: dragMouseMove_def Let_def)
  then show ?thesis
    by (simp add: dragMouseUp_def proposedEdge_def)
qed

theorem release_far_no_edge_witness:
  "snd (dragMouseUp (fieldElements (st_nodes ex_state)) ''1700000000004''
     (dragMouseMove ex_viewport ex_fieldPositions ex_dragging (Some ex_rect)
        \<lparr>pos_x = 600, pos_y = 600\<rparr>,
      ex_state\<lparr>st_edges := []\<rparr>)) = ex_state\<lparr>st_edges := []\<rparr>"
proof -
  have d: "ws_drag ex_dragging =
           Some \<lparr>drag_nodeId = ''node-1'', drag_fieldId = ''output-1-1'',
                 drag_fieldType = Output, currentSnapCandidate = None\<rparr>"
    by (simp add: ex_dragging_def handleFieldMouseDown_def)
  have far: "\<forall>entry \<in> set ex_fieldPositions.
           40 / vp_scale ex_viewport <
             sqrt ((pos_x (snd entry) - pos_x (toCanvas ex_viewport ex_rect \<lparr>pos_x = 600, pos_y = 600\<rparr>)) *
                   (pos_x (snd entry) - pos_x (toCanvas ex_viewport ex_rect \<lparr>pos_x = 600, pos_y = 600\<rparr>)) +
                   (pos_y (snd entry) - pos_y (toCanvas ex_viewport ex_rect \<lparr>pos_x = 600, pos_y = 600\<rparr>)) *
                   (pos_y (snd entry) - pos_y (toCanvas ex_viewport ex_rect \<lparr>pos_x = 600, pos_y = 600\<rparr>)))"
    by (simp add: ex_fieldPositions_def ex_viewport_def ex_rect_def toCanvas_def real_less_rsqrt)
  show ?thesis
    using release_far_no_edge[OF d far] by simp
qed


end
